theory Spec2Isabelle
  imports Complex_Main "HOL-Library.Char_ord" "HOL-Library.List_Lexorder" "HOL-Library.Option_ord"
begin

section \<open>Delta tables of the ingestion notebook\<close>

text \<open>
  The four tables of \<^verbatim>\<open>01_ingest_fhir_assessments.py\<close> are lists of rows. No column of
  the \<^verbatim>\<open>CREATE TABLE\<close> statements is declared \<^verbatim>\<open>NOT NULL\<close>, so every cell is an
  \<open>option\<close> and \<open>None\<close> is SQL's \<^verbatim>\<open>NULL\<close>. A \<^verbatim>\<open>DOUBLE\<close> cell holds the real
  number that the double is; arithmetic on doubles is the exact operation followed by
  the rounding \<open>fl\<close> to the nearest double, which the operators below take as a
  parameter. \<^verbatim>\<open>INT\<close> and \<^verbatim>\<open>LONG\<close> are \<open>int\<close>. A \<^verbatim>\<open>DATE\<close> is the ISO text of
  the day (\<^verbatim>\<open>2024-01-15\<close>), which is what the notebook itself cuts out of the payload;
  a \<^verbatim>\<open>TIMESTAMP\<close> is a day and a time of day.
\<close>

type_synonym date = string

datatype timestamp = Timestamp (ts_date: date) (ts_time: string)

record meta_row =
  am_assessment_id :: "string option"
  am_user_id :: "int option"
  am_server_url :: "string option"
  am_execution_date :: "timestamp option"
  am_resources :: "string option list option"
  am_sample_size :: "int option"
  am_validator :: "string option"
  am_framework :: "string option"
  am_status :: "string option"
  am_overall_score :: "real option"
  am_created_at :: "timestamp option"

record result_row =
  ar_result_id :: "string option"
  ar_assessment_id :: "string option"
  ar_resource_type :: "string option"
  ar_resource_id :: "string option"
  ar_quality_score :: "real option"
  ar_completeness_score :: "real option"
  ar_conformity_score :: "real option"
  ar_plausibility_score :: "real option"
  ar_timeliness_score :: "real option"
  ar_calculability_score :: "real option"
  ar_execution_date :: "date option"
  ar_created_at :: "timestamp option"

record issue_row =
  vi_issue_id :: "string option"
  vi_result_id :: "string option"
  vi_assessment_id :: "string option"
  vi_resource_type :: "string option"
  vi_resource_id :: "string option"
  vi_dimension :: "string option"
  vi_severity :: "string option"
  vi_message :: "string option"
  vi_field_path :: "string option"
  vi_is_auto_fixed :: "bool option"
  vi_detected_at :: "timestamp option"

record trend_row =
  qt_date :: "date option"
  qt_user_id :: "int option"
  qt_resource_type :: "string option"
  qt_avg_quality_score :: "real option"
  qt_total_resources_evaluated :: "int option"
  qt_total_issues :: "int option"
  qt_assessment_count :: "int option"
  qt_updated_at :: "timestamp option"

record store =
  assessments_meta :: "meta_row list"
  assessment_results :: "result_row list"
  validation_issues :: "issue_row list"
  quality_trends_daily :: "trend_row list"

text \<open>The column names of the two fact tables that the aggregation joins, as created.\<close>

definition assessments_meta_columns :: "string list" where
  "assessments_meta_columns =
     [''assessment_id'', ''user_id'', ''server_url'', ''execution_date'', ''resources'',
      ''sample_size'', ''validator'', ''framework'', ''status'', ''overall_score'', ''created_at'']"

definition assessment_results_columns :: "string list" where
  "assessment_results_columns =
     [''result_id'', ''assessment_id'', ''resource_type'', ''resource_id'', ''quality_score'',
      ''completeness_score'', ''conformity_score'', ''plausibility_score'', ''timeliness_score'',
      ''calculability_score'', ''execution_date'', ''created_at'']"

section \<open>SQL operators\<close>

text \<open>
  A comparison with \<^verbatim>\<open>NULL\<close> is \<^verbatim>\<open>NULL\<close>, and \<^verbatim>\<open>ON\<close> and \<^verbatim>\<open>WHERE\<close> keep a row
  only when the condition is \<^verbatim>\<open>TRUE\<close>: \<open>sql_eq\<close> says when \<^verbatim>\<open>x = y\<close> is \<^verbatim>\<open>TRUE\<close>.
  \<^verbatim>\<open>GROUP BY\<close> and \<^verbatim>\<open>COUNT(DISTINCT ...)\<close> on the other hand put all \<^verbatim>\<open>NULL\<close>s
  together, which is plain equality of \<open>option\<close> values. Aggregates skip \<^verbatim>\<open>NULL\<close>
  and are \<^verbatim>\<open>NULL\<close> when nothing is left. \<^verbatim>\<open>AVG\<close> of doubles adds them up as doubles
  and divides the sum by their number; the rows are added in the order of the list
  (Spark fixes no order).
\<close>

definition sql_eq :: "'a option \<Rightarrow> 'a option \<Rightarrow> bool" where
  "sql_eq x y = (case x of None \<Rightarrow> False | Some a \<Rightarrow> (case y of None \<Rightarrow> False | Some b \<Rightarrow> a = b))"

definition non_null :: "'a option list \<Rightarrow> 'a list" where
  "non_null xs = concat (map (\<lambda>x. case x of None \<Rightarrow> [] | Some v \<Rightarrow> [v]) xs)"

definition double_sum :: "(real \<Rightarrow> real) \<Rightarrow> real list \<Rightarrow> real" where
  "double_sum fl xs = foldl (\<lambda>acc x. fl (acc + x)) 0 xs"

definition sql_avg :: "(real \<Rightarrow> real) \<Rightarrow> real option list \<Rightarrow> real option" where
  "sql_avg fl xs =
     (if non_null xs = [] then None
      else Some (fl (double_sum fl (non_null xs) / real (length (non_null xs)))))"

definition sql_sum :: "int option list \<Rightarrow> int option" where
  "sql_sum xs = (if non_null xs = [] then None else Some (sum_list (non_null xs)))"

definition coalesce :: "'a option \<Rightarrow> 'a \<Rightarrow> 'a" where
  "coalesce x d = (case x of None \<Rightarrow> d | Some v \<Rightarrow> v)"

definition count_distinct :: "'a option list \<Rightarrow> int" where
  "count_distinct xs = int (length (remdups (non_null xs)))"

section \<open>update_quality_trends\<close>

text \<open>
  The function is one \<^verbatim>\<open>spark.sql\<close> call with one \<^verbatim>\<open>MERGE\<close> statement. Spark
  analyses a statement before it runs it: every column reference must resolve to exactly
  one column of the relations in scope, and a statement that does not pass is rejected
  with nothing read and nothing written. The parts of the statement come first, then
  the analysis, then the whole.

  The function has no parameter: the day it aggregates is \<^verbatim>\<open>CURRENT_DATE()\<close>, and the
  stamp it writes is \<^verbatim>\<open>CURRENT_TIMESTAMP()\<close>. Both are read from one clock value
  \<open>now\<close>, the time of the statement.

  The subquery \<^verbatim>\<open>i\<close>: one row per (assessment_id, resource_type) of
  \<^verbatim>\<open>validation_issues\<close> with its \<^verbatim>\<open>COUNT(*)\<close>. It has no \<^verbatim>\<open>WHERE\<close>.
\<close>

definition issue_key :: "issue_row \<Rightarrow> string option \<times> string option" where
  "issue_key v = (vi_assessment_id v, vi_resource_type v)"

definition issue_counts :: "issue_row list \<Rightarrow> ((string option \<times> string option) \<times> int) list" where
  "issue_counts vis =
     map (\<lambda>k. (k, int (length (filter (\<lambda>v. issue_key v = k) vis))))
         (remdups (map issue_key vis))"

text \<open>
  \<^verbatim>\<open>FROM assessment_results r JOIN assessments_meta a ON r.assessment_id = a.assessment_id\<close>
\<close>

definition join_meta :: "result_row list \<Rightarrow> meta_row list \<Rightarrow> (result_row \<times> meta_row) list" where
  "join_meta rs ms =
     concat (map (\<lambda>r. map (Pair r)
                        (filter (\<lambda>a. sql_eq (ar_assessment_id r) (am_assessment_id a)) ms)) rs)"

text \<open>
  \<^verbatim>\<open>LEFT JOIN (...) i ON r.assessment_id = i.assessment_id AND r.resource_type = i.resource_type\<close>:
  a row without a partner is kept, with \<^verbatim>\<open>NULL\<close> for \<^verbatim>\<open>i.issue_count\<close>.
\<close>

definition issue_partners ::
  "((string option \<times> string option) \<times> int) list \<Rightarrow> result_row \<Rightarrow> int list" where
  "issue_partners ic r =
     map snd (filter (\<lambda>i. sql_eq (ar_assessment_id r) (fst (fst i)) \<and>
                           sql_eq (ar_resource_type r) (snd (fst i))) ic)"

definition left_join_issues ::
  "((string option \<times> string option) \<times> int) list \<Rightarrow> result_row \<times> meta_row \<Rightarrow>
   (result_row \<times> meta_row \<times> int option) list" where
  "left_join_issues ic ra =
     (if issue_partners ic (fst ra) = [] then [(fst ra, snd ra, None)]
      else map (\<lambda>n. (fst ra, snd ra, Some n)) (issue_partners ic (fst ra)))"

text \<open>\<^verbatim>\<open>WHERE DATE(r.execution_date) = CURRENT_DATE()\<close>, after the joins.\<close>

definition joined_rows :: "date \<Rightarrow> store \<Rightarrow> (result_row \<times> meta_row \<times> int option) list" where
  "joined_rows today s =
     filter (\<lambda>x. sql_eq (ar_execution_date (fst x)) (Some today))
       (concat (map (left_join_issues (issue_counts (validation_issues s)))
                    (join_meta (assessment_results s) (assessments_meta s))))"

text \<open>
  \<^verbatim>\<open>GROUP BY DATE(r.execution_date), a.user_id, r.resource_type\<close> and the select list,
  for the case that the date of the select list is the first grouping expression.
\<close>

type_synonym trend_key = "date option \<times> int option \<times> string option"

definition group_key :: "result_row \<times> meta_row \<times> int option \<Rightarrow> trend_key" where
  "group_key x = (ar_execution_date (fst x), am_user_id (fst (snd x)), ar_resource_type (fst x))"

definition aggregate ::
  "(real \<Rightarrow> real) \<Rightarrow> timestamp \<Rightarrow> (result_row \<times> meta_row \<times> int option) list \<Rightarrow>
   trend_key \<Rightarrow> trend_row" where
  "aggregate fl now rows k =
     \<lparr> qt_date = fst k,
       qt_user_id = fst (snd k),
       qt_resource_type = snd (snd k),
       qt_avg_quality_score =
         sql_avg fl (map (\<lambda>x. ar_quality_score (fst x)) (filter (\<lambda>x. group_key x = k) rows)),
       qt_total_resources_evaluated = Some (int (length (filter (\<lambda>x. group_key x = k) rows))),
       qt_total_issues =
         Some (coalesce (sql_sum (map (\<lambda>x. snd (snd x)) (filter (\<lambda>x. group_key x = k) rows))) 0),
       qt_assessment_count =
         Some (count_distinct
                 (map (\<lambda>x. ar_assessment_id (fst x)) (filter (\<lambda>x. group_key x = k) rows))),
       qt_updated_at = Some now \<rparr>"

definition trend_source :: "(real \<Rightarrow> real) \<Rightarrow> timestamp \<Rightarrow> store \<Rightarrow> trend_row list" where
  "trend_source fl now s =
     map (aggregate fl now (joined_rows (ts_date now) s))
         (remdups (map group_key (joined_rows (ts_date now) s)))"

text \<open>
  \<^verbatim>\<open>MERGE INTO quality_trends_daily AS target USING (...) AS source ON ...\<close>. A target
  row that has a partner in the source takes the five derived columns of that partner
  and keeps its key; a source row without a partner in the target is inserted whole.
  Partners are sought in the table as it was before the statement. The source has one
  row per group, so a target row has at most one partner; \<open>merge_update\<close> takes the
  first.
\<close>

definition trend_key :: "trend_row \<Rightarrow> trend_key" where
  "trend_key t = (qt_date t, qt_user_id t, qt_resource_type t)"

definition merge_on :: "trend_row \<Rightarrow> trend_row \<Rightarrow> bool" where
  "merge_on target source =
     (sql_eq (qt_date target) (qt_date source) \<and>
      sql_eq (qt_user_id target) (qt_user_id source) \<and>
      sql_eq (qt_resource_type target) (qt_resource_type source))"

definition merge_update :: "trend_row list \<Rightarrow> trend_row \<Rightarrow> trend_row" where
  "merge_update source target =
     (case filter (merge_on target) source of
        [] \<Rightarrow> target
      | src # _ \<Rightarrow>
          target\<lparr> qt_avg_quality_score := qt_avg_quality_score src,
                  qt_total_resources_evaluated := qt_total_resources_evaluated src,
                  qt_total_issues := qt_total_issues src,
                  qt_assessment_count := qt_assessment_count src,
                  qt_updated_at := qt_updated_at src \<rparr>)"

definition merge_into :: "trend_row list \<Rightarrow> trend_row list \<Rightarrow> trend_row list" where
  "merge_into target source =
     map (merge_update source) target @
     filter (\<lambda>src. filter (\<lambda>t. merge_on t src) target = []) source"

text \<open>
  The analysis. The relations in scope of the select list of the source query are
  \<^verbatim>\<open>assessment_results r\<close>, \<^verbatim>\<open>assessments_meta a\<close> and the subquery \<^verbatim>\<open>i\<close>. All
  references of the statement carry an alias but one: line 233 selects
  \<^verbatim>\<open>DATE(execution_date) as date\<close>. A reference without alias resolves to the one
  relation in scope that has a column of that name; with none it is unresolved, with
  more than one ambiguous. A resolved column that is not a grouping expression may not
  stand in the select list of a grouped query outside an aggregate.
\<close>

datatype sql_error = UnresolvedColumn string | AmbiguousReference string | MissingAggregation string

definition source_scope :: "(string \<times> string list) list" where
  "source_scope =
     [(''r'', assessment_results_columns),
      (''a'', assessments_meta_columns),
      (''i'', [''assessment_id'', ''resource_type'', ''issue_count''])]"

definition resolve :: "(string \<times> string list) list \<Rightarrow> string \<Rightarrow> sql_error + string" where
  "resolve scope name =
     (case filter (\<lambda>rel. name \<in> set (snd rel)) scope of
        [] \<Rightarrow> Inl (UnresolvedColumn name)
      | rel # others \<Rightarrow>
          (if others = [] then Inr (fst rel) else Inl (AmbiguousReference name)))"

text \<open>
  The statement: rejected by the analysis with the tables as they are, or else run. The
  outcome is the error, if any, and the store as it is left.
\<close>

definition update_quality_trends ::
  "(real \<Rightarrow> real) \<Rightarrow> timestamp \<Rightarrow> store \<Rightarrow> sql_error option \<times> store" where
  "update_quality_trends fl now s =
     (case resolve source_scope ''execution_date'' of
        Inl e \<Rightarrow> (Some e, s)
      | Inr alias \<Rightarrow>
          (if alias = ''r''
           then (None, s\<lparr> quality_trends_daily :=
                          merge_into (quality_trends_daily s) (trend_source fl now s) \<rparr>)
           else (Some (MissingAggregation ''execution_date''), s)))"

section \<open>Python values\<close>

text \<open>
  The two arguments of \<^verbatim>\<open>ingest_assessment_data\<close> are what \<^verbatim>\<open>response.json()\<close>
  returns: dictionaries with string keys, as association lists (a key is looked up with
  \<open>map_of\<close>). A key can be missing, or present with the value \<^verbatim>\<open>None\<close>;
  the code tells the two apart. A float is the real number it is.
\<close>

datatype pyval =
    PNone
  | PBool bool
  | PInt int
  | PFloat real
  | PStr string
  | PList "pyval list"
  | PDict "(string \<times> pyval) list"

type_synonym pydict = "(string \<times> pyval) list"

text \<open>
  Line 124, \<^verbatim>\<open>from pyspark.sql.functions import *\<close>, binds \<^verbatim>\<open>hash\<close> and
  \<^verbatim>\<open>current_timestamp\<close> to Spark's column functions. What they return is not a value
  but a \<^verbatim>\<open>Column\<close> object, an expression for Spark to evaluate later. A cell of a
  row handed to Spark holds a Python value or such an object.
\<close>

datatype column = HashOf string | CurrentTimestamp

datatype cell = Val pyval | Col column

text \<open>
  The exceptions the function can raise. \<open>WriteError\<close> stands for Spark refusing a
  value that does not fit the column it is written to.
\<close>

datatype py_error =
  KeyError string | NameError string | TypeError | AttributeError | ValueError | WriteError

definition then_do :: "py_error + 'a \<Rightarrow> ('a \<Rightarrow> py_error + 'b) \<Rightarrow> py_error + 'b" where
  "then_do x f = (case x of Inl e \<Rightarrow> Inl e | Inr v \<Rightarrow> f v)"

text \<open>\<^verbatim>\<open>d[k]\<close>, \<^verbatim>\<open>d.get(k, default)\<close> and \<^verbatim>\<open>k in d\<close> on a dictionary.\<close>

definition subscript :: "pydict \<Rightarrow> string \<Rightarrow> py_error + pyval" where
  "subscript d k = (case map_of d k of None \<Rightarrow> Inl (KeyError k) | Some v \<Rightarrow> Inr v)"

definition dict_get :: "pydict \<Rightarrow> string \<Rightarrow> pyval \<Rightarrow> pyval" where
  "dict_get d k dflt = (case map_of d k of None \<Rightarrow> dflt | Some v \<Rightarrow> v)"

definition has_key :: "pydict \<Rightarrow> string \<Rightarrow> bool" where
  "has_key d k = (map_of d k \<noteq> None)"

text \<open>
  The same on a value that is only expected to be a dictionary: \<^verbatim>\<open>score['resourceType']\<close>,
  \<^verbatim>\<open>issue.get('field', '')\<close>.
\<close>

fun item :: "pyval \<Rightarrow> string \<Rightarrow> py_error + pyval" where
  "item (PDict d) k = subscript d k"
| "item v k = Inl TypeError"

fun get_method :: "pyval \<Rightarrow> string \<Rightarrow> pyval \<Rightarrow> py_error + pyval" where
  "get_method (PDict d) k dflt = Inr (dict_get d k dflt)"
| "get_method v k dflt = Inl AttributeError"



text \<open>\<^verbatim>\<open>for x in v\<close>: a list gives its elements, a string its characters, a dictionary its keys.\<close>

fun py_iter :: "pyval \<Rightarrow> py_error + pyval list" where
  "py_iter (PList xs) = Inr xs"
| "py_iter (PStr s) = Inr (map (\<lambda>c. PStr [c]) s)"
| "py_iter (PDict d) = Inr (map (\<lambda>kv. PStr (fst kv)) d)"
| "py_iter v = Inl TypeError"

text \<open>Decimal text of an integer, as an f-string prints it.\<close>

definition digit_char :: "nat \<Rightarrow> char" where
  "digit_char n = ''0123456789'' ! n"

fun show_nat :: "nat \<Rightarrow> string" where
  "show_nat n = (if n < 10 then [digit_char n] else show_nat (n div 10) @ [digit_char (n mod 10)])"

declare show_nat.simps [simp del]

definition show_int :: "int \<Rightarrow> string" where
  "show_int i = (if i < 0 then CHR ''-'' # show_nat (nat (- i)) else show_nat (nat i))"

text \<open>
  What one run reads from outside its arguments: the clock (\<open>clock E n\<close> is the second
  a call of \<^verbatim>\<open>int(time.time())\<close> returns at the \<open>n\<close>-th read of the run), and Python's
  text for floats, lists and dictionaries and for \<^verbatim>\<open>Column\<close> objects, which is not
  spelled out here.
\<close>

record env =
  clock :: "nat \<Rightarrow> int"
  py_repr :: "pyval \<Rightarrow> string"
  column_repr :: "column \<Rightarrow> string"

fun py_str :: "env \<Rightarrow> pyval \<Rightarrow> string" where
  "py_str E (PStr s) = s"
| "py_str E (PInt n) = show_int n"
| "py_str E PNone = ''None''"
| "py_str E (PBool b) = (if b then ''True'' else ''False'')"
| "py_str E v = py_repr E v"

text \<open>
  \<^verbatim>\<open>int(time.time())\<close>: the name \<^verbatim>\<open>time\<close> is looked up among the modules the notebook
  has imported, which are those of lines 126 and 127; the two star imports of lines 124
  and 125 bind the functions and types of pyspark, no module. A name that is not bound
  raises \<^verbatim>\<open>NameError\<close>.
\<close>

definition imported_modules :: "string list" where
  "imported_modules = [''requests'', ''json'']"

definition module_bound :: "string \<Rightarrow> py_error + unit" where
  "module_bound name = (if name \<in> set imported_modules then Inr () else Inl (NameError name))"

definition time_time :: "env \<Rightarrow> nat \<Rightarrow> py_error + int" where
  "time_time E n = then_do (module_bound ''time'') (\<lambda>u. Inr (clock E n))"

text \<open>
  \<^verbatim>\<open>hash(x)\<close> is \<^verbatim>\<open>pyspark.sql.functions.hash\<close>: a string is taken as the name of a
  column and the result is the \<^verbatim>\<open>Column\<close> object of its hash; a value that is neither
  a string nor a column is refused.
\<close>

fun hash :: "pyval \<Rightarrow> py_error + column" where
  "hash (PStr s) = Inr (HashOf s)"
| "hash v = Inl TypeError"

section \<open>Writing Python rows to the tables\<close>

text \<open>
  \<^verbatim>\<open>spark.createDataFrame(rows)\<close> infers a type for every column from the cells it
  is given. It raises on an empty list of rows, on a cell that is a \<^verbatim>\<open>Column\<close>
  object, and on a column for which no type can be found: one all of whose cells are
  \<^verbatim>\<open>None\<close> or lists with no element other than \<^verbatim>\<open>None\<close>.
\<close>

fun is_column :: "cell \<Rightarrow> bool" where
  "is_column (Col c) = True"
| "is_column (Val v) = False"

fun no_type :: "cell \<Rightarrow> bool" where
  "no_type (Val PNone) = True"
| "no_type (Val (PList xs)) = list_all (\<lambda>x. x = PNone) xs"
| "no_type c = False"

definition create_data_frame :: "cell list list \<Rightarrow> py_error + unit" where
  "create_data_frame rows =
     (if rows = [] then Inl ValueError
      else if list_ex (list_ex is_column) rows then Inl TypeError
      else if list_ex (list_all no_type) (transpose rows) then Inl ValueError
      else Inr ())"

text \<open>
  \<^verbatim>\<open>.write ... mode("append").saveAsTable(t)\<close> appends the rows to \<^verbatim>\<open>t\<close>. A cell
  holding \<^verbatim>\<open>None\<close> becomes \<^verbatim>\<open>NULL\<close>; a number fits a numeric column, a string a
  \<^verbatim>\<open>STRING\<close> column, an ISO string (\<^verbatim>\<open>2024-01-15T10:30:00Z\<close>) a \<^verbatim>\<open>TIMESTAMP\<close>
  column; anything else is refused.
\<close>

fun as_string :: "pyval \<Rightarrow> py_error + string option" where
  "as_string PNone = Inr None"
| "as_string (PStr s) = Inr (Some s)"
| "as_string v = Inl WriteError"



fun as_boolean :: "pyval \<Rightarrow> py_error + bool option" where
  "as_boolean PNone = Inr None"
| "as_boolean (PBool b) = Inr (Some b)"
| "as_boolean v = Inl WriteError"

definition iso_timestamp :: "string \<Rightarrow> timestamp" where
  "iso_timestamp s =
     Timestamp (takeWhile (\<lambda>c. c \<noteq> CHR ''T'') s) (drop 1 (dropWhile (\<lambda>c. c \<noteq> CHR ''T'') s))"

fun as_timestamp :: "pyval \<Rightarrow> py_error + timestamp option" where
  "as_timestamp PNone = Inr None"
| "as_timestamp (PStr s) = Inr (Some (iso_timestamp s))"
| "as_timestamp v = Inl WriteError"



fun as_timestamp_cell :: "cell \<Rightarrow> py_error + timestamp option" where
  "as_timestamp_cell (Val v) = as_timestamp v"
| "as_timestamp_cell (Col c) = Inl TypeError"

section \<open>ingest_assessment_data\<close>



record issue_dict =
  id_issue_id :: string
  id_result_id :: string
  id_assessment_id :: string
  id_resource_type :: pyval
  id_resource_id :: pyval
  id_dimension :: pyval
  id_severity :: pyval
  id_message :: pyval
  id_field_path :: pyval
  id_is_auto_fixed :: pyval
  id_detected_at :: column














text \<open>
  Step 3, the dictionary of lines 199 to 211 for one element \<open>issue\<close> of
  \<^verbatim>\<open>results['topIssues']\<close>, with the f-string of line 200 as a function of its four fields.
\<close>

definition issue_id_text :: "env \<Rightarrow> pyval \<Rightarrow> pyval \<Rightarrow> int \<Rightarrow> column \<Rightarrow> string" where
  "issue_id_text E aid rtype secs h =
     py_str E aid @ ''_'' @ py_str E rtype @ ''_'' @ show_int secs @ ''_'' @ column_repr E h"

definition build_issue :: "env \<Rightarrow> pydict \<Rightarrow> nat \<Rightarrow> pyval \<Rightarrow> py_error + issue_dict" where
  "build_issue E assessment n issue =
     then_do (subscript assessment ''id'') (\<lambda>aid.
     then_do (get_method issue ''resourceType'' (PStr ''unknown'')) (\<lambda>rtype.
     then_do (time_time E n) (\<lambda>secs.
     then_do (item issue ''message'') (\<lambda>message.
     then_do (hash message) (\<lambda>h.
     then_do (get_method issue ''resourceId'' (PStr ''unknown'')) (\<lambda>rid.
     then_do (item issue ''dimension'') (\<lambda>dimension.
     then_do (item issue ''severity'') (\<lambda>severity.
     then_do (get_method issue ''field'' (PStr [])) (\<lambda>field.
     then_do (get_method issue ''autoFixed'' (PBool False)) (\<lambda>fixed.
     Inr \<lparr> id_issue_id = issue_id_text E aid rtype secs h,
           id_result_id = py_str E aid @ ''_'' @ py_str E rtype,
           id_assessment_id = py_str E aid,
           id_resource_type = rtype,
           id_resource_id = rid,
           id_dimension = dimension,
           id_severity = severity,
           id_message = message,
           id_field_path = field,
           id_is_auto_fixed = fixed,
           id_detected_at = CurrentTimestamp \<rparr>))))))))))"

fun build_issues :: "env \<Rightarrow> pydict \<Rightarrow> nat \<Rightarrow> pyval list \<Rightarrow> py_error + issue_dict list" where
  "build_issues E assessment n [] = Inr []"
| "build_issues E assessment n (issue # issues) =
     then_do (build_issue E assessment n issue) (\<lambda>d.
     then_do (build_issues E assessment (Suc n) issues) (\<lambda>ds. Inr (d # ds)))"

definition issue_cells :: "issue_dict \<Rightarrow> cell list" where
  "issue_cells d =
     [Val (PStr (id_issue_id d)), Val (PStr (id_result_id d)), Val (PStr (id_assessment_id d)),
      Val (id_resource_type d), Val (id_resource_id d), Val (id_dimension d),
      Val (id_severity d), Val (id_message d), Val (id_field_path d),
      Val (id_is_auto_fixed d), Col (id_detected_at d)]"

definition write_issue :: "issue_dict \<Rightarrow> py_error + issue_row" where
  "write_issue d =
     then_do (as_string (id_resource_type d)) (\<lambda>rtype.
     then_do (as_string (id_resource_id d)) (\<lambda>rid.
     then_do (as_string (id_dimension d)) (\<lambda>dimension.
     then_do (as_string (id_severity d)) (\<lambda>severity.
     then_do (as_string (id_message d)) (\<lambda>message.
     then_do (as_string (id_field_path d)) (\<lambda>field.
     then_do (as_boolean (id_is_auto_fixed d)) (\<lambda>fixed.
     then_do (as_timestamp_cell (Col (id_detected_at d))) (\<lambda>detected.
     Inr \<lparr> vi_issue_id = Some (id_issue_id d),
           vi_result_id = Some (id_result_id d),
           vi_assessment_id = Some (id_assessment_id d),
           vi_resource_type = rtype,
           vi_resource_id = rid,
           vi_dimension = dimension,
           vi_severity = severity,
           vi_message = message,
           vi_field_path = field,
           vi_is_auto_fixed = fixed,
           vi_detected_at = detected \<rparr>))))))))"

fun convert_issues :: "issue_dict list \<Rightarrow> py_error + issue_row list" where
  "convert_issues [] = Inr []"
| "convert_issues (d # ds) =
     then_do (write_issue d) (\<lambda>r. then_do (convert_issues ds) (\<lambda>rs. Inr (r # rs)))"

definition write_issues :: "issue_dict list \<Rightarrow> py_error + issue_row list" where
  "write_issues ds =
     then_do (create_data_frame (map issue_cells ds)) (\<lambda>u. convert_issues ds)"


definition ingest_issues :: "env \<Rightarrow> pydict \<Rightarrow> pydict \<Rightarrow> nat \<Rightarrow> store \<Rightarrow> py_error + store" where
  "ingest_issues E assessment results n s =
     (if has_key results ''topIssues'' then
        then_do (subscript results ''topIssues'') (\<lambda>v.
        then_do (py_iter v) (\<lambda>issues.
        then_do (build_issues E assessment n issues) (\<lambda>issues_data.
        then_do (write_issues issues_data) (\<lambda>rows.
        Inr (s\<lparr> validation_issues := validation_issues s @ rows \<rparr>)))))
      else Inr s)"


section \<open>dimension_scores\<close>





section \<open>Notions used in the statements\<close>

text \<open>The trend rows of a key, and the issues detected on a day.\<close>

definition rows_of_key :: "trend_key \<Rightarrow> trend_row list \<Rightarrow> trend_row list" where
  "rows_of_key k T = filter (\<lambda>t. trend_key t = k) T"


section \<open>Example payloads and table states\<close>


definition assessment_example :: "string \<Rightarrow> pyval \<Rightarrow> pydict \<Rightarrow> pydict" where
  "assessment_example aid user completed =
     [(''id'', PStr aid), (''userId'', user), (''serverId'', PInt 1),
      (''createdAt'', PStr ''2024-01-14T09:00:00Z'')] @ completed @
     [(''resources'', PList [PStr ''Patient'']), (''sampleSize'', PInt 100),
      (''validator'', PStr ''inferno''), (''qualityFramework'', PStr ''kahn''),
      (''status'', PStr ''completed'')]"




definition issue_example :: pyval where
  "issue_example =
     PDict [(''resourceType'', PStr ''Patient''), (''dimension'', PStr ''completeness''),
            (''severity'', PStr ''error''), (''message'', PStr ''name missing'')]"




text \<open>The metadata row of the example assessments.\<close>

definition meta_example :: "string \<Rightarrow> string \<Rightarrow> real \<Rightarrow> meta_row" where
  "meta_example aid executed overall =
     \<lparr> am_assessment_id = Some aid, am_user_id = Some 7, am_server_url = Some ''server_1'',
       am_execution_date = Some (iso_timestamp executed),
       am_resources = Some [Some ''Patient''], am_sample_size = Some 100,
       am_validator = Some ''inferno'', am_framework = Some ''kahn'',
       am_status = Some ''completed'', am_overall_score = Some overall,
       am_created_at = Some (iso_timestamp ''2024-01-14T09:00:00Z'') \<rparr>"

definition noon_15 :: timestamp where
  "noon_15 = Timestamp ''2024-01-15'' ''12:00:00''"

definition evening_15 :: timestamp where
  "evening_15 = Timestamp ''2024-01-15'' ''18:00:00''"

definition night_15 :: timestamp where
  "night_15 = Timestamp ''2024-01-15'' ''23:00:00''"

text \<open>
  A state of the tables: two assessments of owner 7 executed on 15 January, each with one
  Patient result, scored 80 and 60, the first with timeliness 40 and the second with
  none; no issues, no trend rows.
\<close>

definition result_example :: "string \<Rightarrow> real \<Rightarrow> real option \<Rightarrow> result_row" where
  "result_example aid q timeliness =
     \<lparr> ar_result_id = Some (aid @ ''_Patient''), ar_assessment_id = Some aid,
       ar_resource_type = Some ''Patient'', ar_resource_id = Some ''Patient_batch'',
       ar_quality_score = Some q, ar_completeness_score = Some 90,
       ar_conformity_score = Some 85, ar_plausibility_score = Some 70,
       ar_timeliness_score = timeliness, ar_calculability_score = None,
       ar_execution_date = Some ''2024-01-15'', ar_created_at = Some noon_15 \<rparr>"

definition store_80_60 :: store where
  "store_80_60 =
     \<lparr> assessments_meta =
         [meta_example ''A1'' ''2024-01-15T09:30:00Z'' 80,
          meta_example ''A2'' ''2024-01-15T09:30:00Z'' 60],
       assessment_results = [result_example ''A1'' 80 (Some 40), result_example ''A2'' 60 None],
       validation_issues = [],
       quality_trends_daily = [] \<rparr>"

text \<open>The same with a trend row of its key already in the table, holding other values.\<close>

definition stale_row :: trend_row where
  "stale_row =
     \<lparr> qt_date = Some ''2024-01-15'', qt_user_id = Some 7, qt_resource_type = Some ''Patient'',
       qt_avg_quality_score = Some 10, qt_total_resources_evaluated = Some 1,
       qt_total_issues = Some 5, qt_assessment_count = Some 1, qt_updated_at = Some noon_15 \<rparr>"

definition store_stale :: store where
  "store_stale = store_80_60\<lparr> quality_trends_daily := [stale_row] \<rparr>"



section \<open>The analysis of the MERGE statement\<close>

lemma resolve_execution_date:
  "resolve source_scope ''execution_date'' = Inl (AmbiguousReference ''execution_date'')"
  by (simp add: resolve_def source_scope_def assessment_results_columns_def
        assessments_meta_columns_def)

text \<open>Every run is rejected and leaves the store as it is.\<close>

lemma update_quality_trends_rejected:
  "update_quality_trends fl now s = (Some (AmbiguousReference ''execution_date''), s)"
  by (simp add: update_quality_trends_def resolve_execution_date)

section \<open>Re-running the aggregation\<close>

text \<open>
  C1. Running \<^verbatim>\<open>update_quality_trends\<close> a second time, with the fact tables
  unchanged, leaves every row of \<^verbatim>\<open>quality_trends_daily\<close> as the first run left it,
  the \<^verbatim>\<open>updated_at\<close> stamp included. (Each of the runs is rejected by the analysis
  and writes nothing.)
\<close>

theorem update_quality_trends_idempotent:
  "quality_trends_daily
     (snd (update_quality_trends fl now' (snd (update_quality_trends fl now s)))) =
   quality_trends_daily (snd (update_quality_trends fl now s))"
  by (simp add: update_quality_trends_rejected)

section \<open>Issues and days\<close>





section \<open>The trend row of a group\<close>

text \<open>
  C5 (where the code departs from it). In \<open>store_80_60\<close> the tables hold exactly two
  assessments of owner 7 and their two Patient results of 15 January, scored 80 and 60.
  The run of that day is rejected for the ambiguous \<^verbatim>\<open>execution_date\<close> and leaves
  no row for the key, where the claim has a row with average 70 and count 2.
\<close>

theorem two_assessments_no_row:
  "map ar_quality_score (assessment_results store_80_60) = [Some 80, Some 60] \<and>
   update_quality_trends fl evening_15 store_80_60 =
     (Some (AmbiguousReference ''execution_date''), store_80_60) \<and>
   rows_of_key (Some ''2024-01-15'', Some 7, Some ''Patient'')
     (quality_trends_daily (snd (update_quality_trends fl evening_15 store_80_60))) = []"
  by (simp add: update_quality_trends_rejected store_80_60_def result_example_def rows_of_key_def)

text \<open>
  C6 (where the code departs from it). In \<open>store_stale\<close> the key of the group is
  already in the trend table, with values that the facts do not give. The run does not
  overwrite the row: it is rejected and the row stays as it was.
\<close>

theorem stale_row_not_overwritten:
  "trend_key stale_row = (Some ''2024-01-15'', Some 7, Some ''Patient'') \<and>
   qt_avg_quality_score stale_row = Some 10 \<and>
   quality_trends_daily (snd (update_quality_trends fl night_15 store_stale)) = [stale_row]"
  by (simp add: update_quality_trends_rejected store_stale_def stale_row_def trend_key_def)

text \<open>
  C7 (where the code departs from it). \<open>store_80_60\<close> has results for the group and no
  issue at all. The run of the day leaves no row for the key, where the claim has a row
  with \<^verbatim>\<open>total_issues\<close> 0.
\<close>

theorem no_issues_no_row:
  "validation_issues store_80_60 = [] \<and>
   map ar_resource_type (assessment_results store_80_60) = [Some ''Patient'', Some ''Patient''] \<and>
   map qt_total_issues
     (rows_of_key (Some ''2024-01-15'', Some 7, Some ''Patient'')
        (quality_trends_daily (snd (update_quality_trends fl evening_15 store_80_60)))) = []"
  by (simp add: update_quality_trends_rejected store_80_60_def result_example_def rows_of_key_def)

section \<open>Facts about the Python operations\<close>


lemma then_do_Inr [simp]: "then_do (Inr v) f = f v"
  by (simp add: then_do_def)

lemma then_do_Inl [simp]: "then_do (Inl e) f = Inl e"
  by (simp add: then_do_def)


text \<open>Nothing binds \<^verbatim>\<open>time\<close>.\<close>

lemma time_time_unbound: "time_time E n = Inl (NameError ''time'')"
  by (simp add: time_time_def module_bound_def imported_modules_def)



lemma build_issue_fails: "\<exists>e. build_issue E assessment n issue = Inl e"
  by (auto simp: build_issue_def time_time_unbound then_do_def split: sum.splits)

lemma build_issue_example:
  "build_issue E (assessment_example aid user completed) n issue_example = Inl (NameError ''time'')"
  by (simp add: build_issue_def issue_example_def assessment_example_def subscript_def
        dict_get_def time_time_unbound)


lemma write_issues_empty: "write_issues [] = Inl ValueError"
  by (simp add: write_issues_def create_data_frame_def)


lemma ingest_issues_fails:
  assumes "has_key results ''topIssues''"
  shows "\<exists>e. ingest_issues E assessment results n s = Inl e"
proof -
  from assms obtain v where v: "subscript results ''topIssues'' = Inr v"
    by (auto simp: has_key_def subscript_def)
  show ?thesis
  proof (cases "py_iter v")
    case (Inl e)
    with assms v show ?thesis by (simp add: ingest_issues_def)
  next
    case (Inr issues)
    show ?thesis
    proof (cases issues)
      case Nil
      with assms v Inr show ?thesis by (simp add: ingest_issues_def write_issues_empty)
    next
      case (Cons issue rest)
      from build_issue_fails obtain e where "build_issue E assessment n issue = Inl e"
        by blast
      with assms v Inr Cons show ?thesis by (simp add: ingest_issues_def)
    qed
  qed
qed













section \<open>Ingestion of a payload\<close>









section \<open>Identifiers\<close>















section \<open>Optional scores\<close>






end
